theory Spec2Isabelle
  imports Complex_Main "HOL-Library.Multiset"
begin

section \<open>Data model\<close>

text \<open>
  Public keys, transaction signatures and program ids are base58 strings. Points in
  time (\<open>Date.now()\<close>, SQLite's \<open>datetime('now')\<close>, ISO strings) are
  milliseconds since the epoch. Lamports are JavaScript numbers holding integers (of
  magnitude below \<open>2 ^ 53\<close>, so that they and their sums are exact). The SOL
  amounts the safety manager forms from them are doubles, rounded as the section on
  JavaScript numbers describes. The day counts of the idle checks are kept as exact
  quotients: they are compared with a whole number of days, and one millisecond is more
  than \<open>10 ^ -8\<close> of a day.
\<close>

type_synonym pubkey = string
type_synonym timestamp = int

datatype account_state = Active | Closed | Reclaimed | Skipped

text \<open>
  One row of the table \<open>sponsored_accounts\<close> (database.ts, interface
  \<open>SponsoredAccount\<close>); the fields carry the column names. \<open>acc_id\<close> is the
  optional \<open>id\<close>: absent on the objects handed to \<open>addAccount\<close>, assigned by
  AUTOINCREMENT on insertion.
\<close>

record SponsoredAccount =
  acc_id :: "nat option"
  acc_pubkey :: pubkey
  program_owner :: "string option"
  sponsor_signature :: "string option"
  acc_lamports :: int
  created_at :: timestamp
  last_checked :: "timestamp option"
  acc_status :: account_state
  reclaimable_since :: "timestamp option"
  close_authority :: "pubkey option"
  operator_can_close :: bool

datatype history_status = Success | Failed | Skipped_history

text \<open>One row of the append-only table \<open>reclaim_history\<close>.\<close>

record ReclaimHistoryEntry =
  h_pubkey :: pubkey
  lamports_reclaimed :: int
  h_status :: history_status
  h_reason :: "string option"
  tx_signature :: "string option"
  h_timestamp :: timestamp

text \<open>
  The texts the scanner, the safety manager and the reclaim engine give as skip
  reasons and errors. A template string is carried as its constructor with the values
  it interpolates; \<open>Message\<close> is the \<open>message\<close> of a caught exception.
\<close>

datatype reason_text =
    Account_already_closed
  | Account_is_whitelisted
  | Executable_program_account
  | Account_active_within_last int
  | System_account_operator_cannot_close
  | Operator_is_not_close_authority string
  | Failed_to_decode_token_account
  | Program_owned_account
  | Failed_to_fetch_account_info
  | Operator_is_not_the_close_authority
  | Account_not_yet_reclaimable
  | Account_checked_days_ago rat int
  | Account_reclaimable_for_days rat int
  | Would_exceed_max_reclaim_limit rat
  | Could_not_create_close_instruction
  | Message string
  | No_result

text \<open>scanner.ts, interface \<open>AccountStatus\<close>.\<close>

record AccountStatus =
  pubkey :: pubkey
  acct_exists :: bool
  lamports :: int
  owner :: "pubkey option"
  dataLength :: nat
  executable :: bool
  isTokenAccount :: bool
  isReclaimable :: bool
  skipReason :: "reason_text option"
  closeAuthority :: "pubkey option"
  operatorCanClose :: bool

datatype log_status = Log_reclaimed | Log_skipped | Log_failed

text \<open>logger.ts, interface \<open>ReclaimLogEntry\<close>.\<close>

record ReclaimLogEntry =
  log_pubkey :: pubkey
  log_status :: log_status
  log_lamports :: int
  log_reason :: "reason_text option"
  log_txSignature :: "string option"
  log_timestamp :: timestamp

text \<open>A value thrown in JavaScript: an \<open>Error\<close> with its message, or anything else.\<close>

datatype thrown = Error string | Not_an_Error

definition errMsgOf :: "thrown \<Rightarrow> string" where
  \<comment> \<open>\<open>err instanceof Error ? err.message : 'Unknown error'\<close>\<close>
  "errMsgOf e = (case e of Error m \<Rightarrow> m | Not_an_Error \<Rightarrow> ''Unknown error'')"

text \<open>
  The two instructions the engine builds: \<open>createCloseAccountInstruction(account,
  destination, authority)\<close> and \<open>SystemProgram.transfer\<close>.
\<close>

datatype instruction =
    CloseAccount pubkey pubkey pubkey
  | Transfer pubkey pubkey int

text \<open>What \<open>getAccount(connection, pubkey)\<close> of the token library gives.\<close>

datatype token_lookup =
    TokenFound nat
  | TokenAccountNotFoundError
  | LookupThrows thrown

text \<open>What one call of \<open>sendAndConfirmTransaction\<close> gives.\<close>

datatype tx_outcome = Confirmed string | Rejected thrown



definition TOKEN_PROGRAM_ID :: pubkey where
  "TOKEN_PROGRAM_ID = ''TokenkegQfeZyiNwAJbNbGKPFXCWuBvf9Ss623VQ5DA''"

definition SystemProgram_programId :: pubkey where
  "SystemProgram_programId = ''11111111111111111111111111111111''"

section \<open>JavaScript numbers\<close>

text \<open>
  A finite double is modelled by the rational number it denotes. The result of an
  arithmetic operation is the exact result rounded to 53 significant bits, to the nearest
  such number, ties to the even one (IEEE 754 binary64, round-to-nearest-even).
  \<open>ilog2 x\<close> is the exponent of \<open>x\<close>: the \<open>k\<close> with
  \<open>2 ^ k \<le> x < 2 ^ (k + 1)\<close>. The exponent range is not modelled: no overflow
  to \<open>Infinity\<close> from \<open>2 ^ 1024\<close> on, no gradual underflow below
  \<open>2 ^ -1022\<close>. The SOL amounts of a run are 0 or lie between
  \<open>10 ^ -9\<close> and \<open>2 ^ 24\<close>.
\<close>

definition round_half_even :: "rat \<Rightarrow> int" where
  "round_half_even y =
     (let f = \<lfloor>y\<rfloor>; r = y - of_int f
      in if r < 1 / 2 then f else if 1 / 2 < r then f + 1 else if even f then f else f + 1)"

function lg_up :: "rat \<Rightarrow> int" where
  \<comment> \<open>for \<open>1 \<le> x\<close>: how often \<open>x\<close> can be halved before it falls below 2\<close>
  "lg_up x = (if 2 \<le> x then lg_up (x / 2) + 1 else 0)"
  by pat_completeness auto
termination
proof (relation "measure (\<lambda>x. nat \<lfloor>x\<rfloor>)")
  show "wf (measure (\<lambda>x::rat. nat \<lfloor>x\<rfloor>))" by simp
next
  fix x :: rat
  assume x: "2 \<le> x"
  have "of_int \<lfloor>x / 2\<rfloor> \<le> x / 2" by (rule of_int_floor_le)
  moreover have "x - 1 < of_int \<lfloor>x\<rfloor>" by linarith
  ultimately have "(of_int \<lfloor>x / 2\<rfloor> :: rat) < of_int \<lfloor>x\<rfloor>" using x by linarith
  then have "\<lfloor>x / 2\<rfloor> < \<lfloor>x\<rfloor>" by (simp only: of_int_less_iff)
  moreover have "0 < \<lfloor>x\<rfloor>" using x by linarith
  ultimately show "(x / 2, x) \<in> measure (\<lambda>x. nat \<lfloor>x\<rfloor>)" by simp
qed

function lg_down :: "rat \<Rightarrow> int" where
  \<comment> \<open>for \<open>0 < x < 1\<close>: minus how often \<open>x\<close> must be doubled to reach 1\<close>
  "lg_down x = (if 0 < x \<and> x < 1 then lg_down (x * 2) - 1 else 0)"
  by pat_completeness auto
termination
proof (relation "measure (\<lambda>x. nat \<lceil>1 / x\<rceil>)")
  show "wf (measure (\<lambda>x::rat. nat \<lceil>1 / x\<rceil>))" by simp
next
  fix x :: rat
  assume "0 < x \<and> x < 1"
  then have x: "0 < x" "x < 1" by simp_all
  define y where "y = 1 / x"
  have y: "1 < y" using x by (simp add: y_def)
  have h: "1 / (x * 2) = y / 2" by (simp add: y_def)
  have a: "of_int \<lceil>y / 2\<rceil> < y / 2 + 1" by linarith
  have b: "y \<le> of_int \<lceil>y\<rceil>" by (rule le_of_int_ceiling)
  have "1 < \<lceil>y\<rceil>" using y by linarith
  then have c: "(2::rat) \<le> of_int \<lceil>y\<rceil>" by linarith
  have "(of_int \<lceil>y / 2\<rceil> :: rat) < of_int \<lceil>y\<rceil>"
  proof (cases "y \<le> 2")
    case True
    then show ?thesis using a c by linarith
  next
    case False
    then show ?thesis using a b by linarith
  qed
  then have "\<lceil>y / 2\<rceil> < \<lceil>y\<rceil>" by (simp only: of_int_less_iff)
  moreover have "0 < \<lceil>y\<rceil>" using y by linarith
  ultimately show "(x * 2, x) \<in> measure (\<lambda>x. nat \<lceil>1 / x\<rceil>)"
    by (simp add: h y_def[symmetric])
qed

declare lg_up.simps [simp del]
declare lg_down.simps [simp del]

definition ilog2 :: "rat \<Rightarrow> int" where
  "ilog2 x = (if 1 \<le> x then lg_up x else lg_down x)"

definition pow2 :: "int \<Rightarrow> rat" where
  "pow2 e = (if 0 \<le> e then 2 ^ nat e else 1 / 2 ^ nat (- e))"

definition nearest_double :: "rat \<Rightarrow> rat" where
  \<comment> \<open>the multiple of \<open>2 ^ (ilog2 \<bar>x\<bar> - 52)\<close> nearest to \<open>x\<close>\<close>
  "nearest_double x =
     (if x = 0 then 0
      else (let e = ilog2 \<bar>x\<bar> - 52
            in of_int (round_half_even (x / pow2 e)) * pow2 e))"

definition num_add :: "rat \<Rightarrow> rat \<Rightarrow> rat" where
  \<comment> \<open>\<open>x + y\<close> on numbers\<close>
  "num_add x y = nearest_double (x + y)"

definition num_sub :: "rat \<Rightarrow> rat \<Rightarrow> rat" where
  \<comment> \<open>\<open>x - y\<close> on numbers\<close>
  "num_sub x y = nearest_double (x - y)"

definition num_mul :: "rat \<Rightarrow> rat \<Rightarrow> rat" where
  \<comment> \<open>\<open>x * y\<close> on numbers\<close>
  "num_mul x y = nearest_double (x * y)"

definition num_div :: "rat \<Rightarrow> rat \<Rightarrow> rat" where
  \<comment> \<open>\<open>x / y\<close> on numbers, \<open>y\<close> not 0\<close>
  "num_div x y = nearest_double (x / y)"

section \<open>Configuration and mutable state\<close>

text \<open>
  What a run reads and never writes: the configuration (config.ts), the operator
  wallet (\<open>loadOperatorKeypair\<close> throws when the file is missing), the
  \<open>PublicKey\<close> constructor (\<open>newPublicKey s = Some err\<close> when it throws
  \<open>err\<close> on the string \<open>s\<close>), and the chain.
  \<open>sendAndConfirm n ixs\<close> is the outcome of the \<open>n\<close>-th submission of the run.
  \<open>maxReclaimSolPerRun\<close> is the double the configuration holds: for a configured
  \<open>0.3\<close> it is \<open>nearest_double (3 / 10)\<close>.
\<close>

record env =
  dryRun :: bool
  treasuryAddress :: string
  minIdleDays :: int
  maxReclaimSolPerRun :: rat
  cfgWhitelist :: "pubkey set"
  loadOperatorKeypair :: "thrown + pubkey"
  newPublicKey :: "string \<Rightarrow> thrown option"
  getAccount :: "pubkey \<Rightarrow> token_lookup"
  sendAndConfirm :: "nat \<Rightarrow> instruction list \<Rightarrow> tx_outcome"

text \<open>
  What a run writes: the three tables of the store, the safety manager's run counter,
  the logger's entries, the transactions submitted so far, the delays slept so far, and
  the clock (advanced by \<open>delay\<close> only).
\<close>

record state =
  accounts :: "pubkey \<rightharpoonup> SponsoredAccount"
  seq :: nat
  history :: "ReclaimHistoryEntry list"
  whitelist :: "pubkey set"
  totalReclaimedThisRun :: int
  logEntries :: "ReclaimLogEntry list"
  submitted :: "instruction list list"
  sleeps :: "int list"
  clock :: timestamp

definition delay :: "int \<Rightarrow> state \<Rightarrow> state" where
  "delay ms st = st\<lparr>sleeps := sleeps st @ [ms], clock := clock st + ms\<rparr>"

section \<open>database.ts\<close>

definition addAccount :: "SponsoredAccount \<Rightarrow> state \<Rightarrow> state" where
  \<comment> \<open>INSERT OR REPLACE: the row of this pubkey, if any, is deleted and the new
      one inserted under a fresh id, with every column taken from the argument.\<close>
  "addAccount account st =
     st\<lparr>accounts := (accounts st)(acc_pubkey account \<mapsto> account\<lparr>acc_id := Some (Suc (seq st))\<rparr>),
        seq := Suc (seq st)\<rparr>"

fun addAccountsBatch :: "SponsoredAccount list \<Rightarrow> state \<Rightarrow> state" where
  "addAccountsBatch [] st = st"
| "addAccountsBatch (account # rest) st = addAccountsBatch rest (addAccount account st)"

definition getAccountRow :: "state \<Rightarrow> pubkey \<Rightarrow> SponsoredAccount option" where
  \<comment> \<open>\<open>database.getAccount\<close>\<close>
  "getAccountRow st pk = accounts st pk"

definition updateAccountStatus :: "pubkey \<Rightarrow> account_state \<Rightarrow> int option \<Rightarrow> state \<Rightarrow> state" where
  "updateAccountStatus pk status lamports_opt st =
     (case accounts st pk of
        None \<Rightarrow> st
      | Some row \<Rightarrow>
          (case lamports_opt of
             Some l \<Rightarrow> st\<lparr>accounts := (accounts st)(pk \<mapsto>
                 row\<lparr>acc_status := status, acc_lamports := l, last_checked := Some (clock st)\<rparr>)\<rparr>
           | None \<Rightarrow> st\<lparr>accounts := (accounts st)(pk \<mapsto>
                 row\<lparr>acc_status := status, last_checked := Some (clock st)\<rparr>)\<rparr>))"




definition addReclaimHistory :: "pubkey \<Rightarrow> int \<Rightarrow> history_status \<Rightarrow> string option \<Rightarrow> string option \<Rightarrow> state \<Rightarrow> state" where
  "addReclaimHistory pk l status rsn sig st =
     st\<lparr>history := history st @
        [\<lparr>h_pubkey = pk, lamports_reclaimed = l, h_status = status, h_reason = rsn,
          tx_signature = sig, h_timestamp = clock st\<rparr>]\<rparr>"

definition isWhitelisted_db :: "state \<Rightarrow> pubkey \<Rightarrow> bool" where
  \<comment> \<open>\<open>database.isWhitelisted\<close>\<close>
  "isWhitelisted_db st pk = (pk \<in> whitelist st)"

section \<open>scanner.ts\<close>

definition daysBetween :: "timestamp \<Rightarrow> timestamp \<Rightarrow> rat" where
  \<comment> \<open>\<open>(Date.now() - then.getTime()) / (1000 * 60 * 60 * 24)\<close>\<close>
  "daysBetween now t = of_int (now - t) / of_int (1000 * 60 * 60 * 24)"




section \<open>safety.ts\<close>

text \<open>
  The repository holds two revisions of safety.ts. \<open>checkAccount\<close> and
  \<open>checkIdleDuration\<close> are the revision of unnamed/part_002 (lines 442-486);
  \<open>checkAccount_003\<close> and \<open>checkIdleDuration_003\<close> are the revision of
  unnamed/part_003 (lines 35-92). The other methods are the same in both.
\<close>

record SafetyCheckResult =
  allowed :: bool
  reason :: "reason_text option"

definition allow :: SafetyCheckResult where
  \<comment> \<open>\<open>{ allowed: true }\<close>\<close>
  "allow = \<lparr>allowed = True, reason = None\<rparr>"

definition deny :: "reason_text \<Rightarrow> SafetyCheckResult" where
  \<comment> \<open>\<open>{ allowed: false, reason }\<close>\<close>
  "deny r = \<lparr>allowed = False, reason = Some r\<rparr>"

definition isWhitelisted :: "env \<Rightarrow> state \<Rightarrow> pubkey \<Rightarrow> bool" where
  "isWhitelisted e st pk = (isWhitelisted_db st pk \<or> pk \<in> cfgWhitelist e)"

definition checkIdleDuration :: "env \<Rightarrow> state \<Rightarrow> pubkey \<Rightarrow> SafetyCheckResult" where
  "checkIdleDuration e st pk =
     (case getAccountRow st pk of
        None \<Rightarrow> allow
      | Some account \<Rightarrow>
          (case last_checked account of
             None \<Rightarrow> allow
           | Some lastChecked \<Rightarrow>
               (let daysSinceCheck = daysBetween (clock st) lastChecked
                in if daysSinceCheck < of_int (minIdleDays e)
                   then deny (Account_checked_days_ago daysSinceCheck (minIdleDays e))
                   else allow)))"

definition checkIdleDuration_003 :: "env \<Rightarrow> state \<Rightarrow> pubkey \<Rightarrow> SafetyCheckResult" where
  "checkIdleDuration_003 e st pk =
     (case getAccountRow st pk of
        None \<Rightarrow> allow
      | Some account \<Rightarrow>
          (case reclaimable_since account of
             None \<Rightarrow> deny Account_not_yet_reclaimable
           | Some reclaimableSince \<Rightarrow>
               (let daysReclaimable = daysBetween (clock st) reclaimableSince
                in if daysReclaimable < of_int (minIdleDays e)
                   then deny (Account_reclaimable_for_days daysReclaimable (minIdleDays e))
                   else allow)))"

definition checkReclaimLimit :: "env \<Rightarrow> state \<Rightarrow> int \<Rightarrow> SafetyCheckResult" where
  "checkReclaimLimit e st l =
     (let solAmount = num_div (of_int l) 1000000000;
          potentialTotal = num_add (num_div (of_int (totalReclaimedThisRun st)) 1000000000) solAmount
      in if potentialTotal > maxReclaimSolPerRun e
         then deny (Would_exceed_max_reclaim_limit (maxReclaimSolPerRun e))
         else allow)"

definition checkAccount :: "env \<Rightarrow> state \<Rightarrow> AccountStatus \<Rightarrow> SafetyCheckResult" where
  "checkAccount e st account =
     (if isWhitelisted e st (pubkey account) then deny Account_is_whitelisted
      else if executable account then deny Executable_program_account
      else if \<not> acct_exists account then deny Account_already_closed
      else (let idleCheck = checkIdleDuration e st (pubkey account)
            in if \<not> allowed idleCheck then idleCheck
               else (let limitCheck = checkReclaimLimit e st (lamports account)
                     in if \<not> allowed limitCheck then limitCheck else allow)))"

definition checkAccount_003 :: "env \<Rightarrow> state \<Rightarrow> AccountStatus \<Rightarrow> SafetyCheckResult" where
  "checkAccount_003 e st account =
     (if \<not> operatorCanClose account then deny Operator_is_not_the_close_authority
      else if isWhitelisted e st (pubkey account) then deny Account_is_whitelisted
      else if executable account then deny Executable_program_account
      else if \<not> acct_exists account then deny Account_already_closed
      else (let idleCheck = checkIdleDuration_003 e st (pubkey account)
            in if \<not> allowed idleCheck then idleCheck
               else (let limitCheck = checkReclaimLimit e st (lamports account)
                     in if \<not> allowed limitCheck then limitCheck else allow)))"

datatype safety_revision = Part_002 | Part_003

definition safety_checkAccount :: "safety_revision \<Rightarrow> env \<Rightarrow> state \<Rightarrow> AccountStatus \<Rightarrow> SafetyCheckResult" where
  \<comment> \<open>\<open>safety.checkAccount\<close> as reclaim.ts imports it, under either revision\<close>
  "safety_checkAccount sv e st account =
     (case sv of Part_002 \<Rightarrow> checkAccount e st account
                | Part_003 \<Rightarrow> checkAccount_003 e st account)"

definition recordReclaim :: "int \<Rightarrow> state \<Rightarrow> state" where
  "recordReclaim l st = st\<lparr>totalReclaimedThisRun := totalReclaimedThisRun st + l\<rparr>"

definition getRemainingBudget :: "env \<Rightarrow> state \<Rightarrow> rat" where
  "getRemainingBudget e st =
     (let maxLamports = num_mul (maxReclaimSolPerRun e) 1000000000
      in max 0 (num_sub maxLamports (of_int (totalReclaimedThisRun st))))"

section \<open>reclaim.ts\<close>

record ReclaimResult =
  rr_pubkey :: pubkey
  success :: bool
  lamportsReclaimed :: int
  txSignature :: "string option"
  error :: "reason_text option"

record BatchReclaimResult =
  successful :: "ReclaimResult list"
  failed :: "ReclaimResult list"
  totalLamportsReclaimed :: int

definition MAX_RETRIES :: nat where "MAX_RETRIES = 3"
definition RETRY_DELAY :: int where "RETRY_DELAY = 1000"
definition MAX_INSTRUCTIONS :: nat where "MAX_INSTRUCTIONS = 10"

definition emptyResult :: BatchReclaimResult where
  "emptyResult = \<lparr>successful = [], failed = [], totalLamportsReclaimed = 0\<rparr>"

definition failedRecord :: "pubkey \<Rightarrow> reason_text option \<Rightarrow> ReclaimResult" where
  \<comment> \<open>\<open>{ pubkey, success: false, lamportsReclaimed: 0, error }\<close>\<close>
  "failedRecord pk err =
     \<lparr>rr_pubkey = pk, success = False, lamportsReclaimed = 0, txSignature = None, error = err\<rparr>"

definition successRecord :: "string option \<Rightarrow> AccountStatus \<Rightarrow> ReclaimResult" where
  \<comment> \<open>\<open>{ pubkey, success: true, lamportsReclaimed: acc.lamports, txSignature }\<close>\<close>
  "successRecord sig acc =
     \<lparr>rr_pubkey = pubkey acc, success = True, lamportsReclaimed = lamports acc,
      txSignature = sig, error = None\<rparr>"

definition logEntry :: "pubkey \<Rightarrow> log_status \<Rightarrow> int \<Rightarrow> reason_text option \<Rightarrow> string option \<Rightarrow> state \<Rightarrow> state" where
  "logEntry pk status l rsn txSig st =
     st\<lparr>logEntries := logEntries st @
        [\<lparr>log_pubkey = pk, log_status = status, log_lamports = l, log_reason = rsn,
          log_txSignature = txSig, log_timestamp = clock st\<rparr>]\<rparr>"

definition createCloseInstruction :: "env \<Rightarrow> AccountStatus \<Rightarrow> pubkey \<Rightarrow> pubkey \<Rightarrow> thrown + instruction option" where
  "createCloseInstruction e account authority destination =
     (case newPublicKey e (pubkey account) of
        Some err \<Rightarrow> Inl err
      | None \<Rightarrow>
          (if isTokenAccount account then
             (case getAccount e (pubkey account) of
                TokenFound amount \<Rightarrow>
                  (if amount > 0 then Inr None
                   else Inr (Some (CloseAccount (pubkey account) destination authority)))
              | TokenAccountNotFoundError \<Rightarrow> Inr None
              | LookupThrows err \<Rightarrow> Inl err)
           else if owner account = Some SystemProgram_programId then
             Inr (Some (Transfer (pubkey account) destination (lamports account)))
           else Inr None))"

text \<open>
  The first loop of \<open>processBatch\<close>: the records pushed to \<open>result.failed\<close>, the
  instructions, and \<open>accountsInTx\<close>, each in the order of the pushes.
\<close>

fun buildInstructions ::
  "safety_revision \<Rightarrow> env \<Rightarrow> pubkey \<Rightarrow> pubkey \<Rightarrow> AccountStatus list \<Rightarrow> state
     \<Rightarrow> (ReclaimResult list \<times> instruction list \<times> AccountStatus list) \<times> state" where
  "buildInstructions sv e operator treasury [] st = (([], [], []), st)"
| "buildInstructions sv e operator treasury (account # rest) st =
     (let safetyCheck = safety_checkAccount sv e st account
      in if \<not> allowed safetyCheck then
           (case buildInstructions sv e operator treasury rest
                   (logEntry (pubkey account) Log_skipped 0 (reason safetyCheck) None st) of
              ((fl, ixs, inTx), st') \<Rightarrow>
                ((failedRecord (pubkey account) (reason safetyCheck) # fl, ixs, inTx), st'))
         else
           (case buildInstructions sv e operator treasury rest st of
              ((fl, ixs, inTx), st') \<Rightarrow>
                (case createCloseInstruction e account operator treasury of
                   Inr (Some ix) \<Rightarrow> ((fl, ix # ixs, account # inTx), st')
                 | Inr None \<Rightarrow>
                     ((failedRecord (pubkey account) (Some Could_not_create_close_instruction) # fl,
                       ixs, inTx), st')
                 | Inl err \<Rightarrow>
                     ((failedRecord (pubkey account) (Some (Message (errMsgOf err))) # fl,
                       ixs, inTx), st'))))"

record TxResult =
  tx_success :: bool
  signature :: "string option"
  tx_error :: "string option"

function executeWithRetry_from :: "env \<Rightarrow> instruction list \<Rightarrow> nat \<Rightarrow> state \<Rightarrow> TxResult \<times> state" where
  "executeWithRetry_from e ixs attempt st =
     (if attempt \<le> MAX_RETRIES then
        (let st1 = st\<lparr>submitted := submitted st @ [ixs]\<rparr>
         in case sendAndConfirm e (length (submitted st)) ixs of
              Confirmed sig \<Rightarrow>
                (\<lparr>tx_success = True, signature = Some sig, tx_error = None\<rparr>, st1)
            | Rejected err \<Rightarrow>
                (if attempt < MAX_RETRIES then
                   executeWithRetry_from e ixs (attempt + 1)
                     (delay (RETRY_DELAY * 2 ^ (attempt - 1)) st1)
                 else
                   (\<lparr>tx_success = False, signature = None, tx_error = Some (errMsgOf err)\<rparr>, st1)))
      else (\<lparr>tx_success = False, signature = None, tx_error = Some ''Max retries exceeded''\<rparr>, st))"
  by pat_completeness auto
termination
  by (relation "measure (\<lambda>(e, ixs, attempt, st). Suc MAX_RETRIES - attempt)") auto

declare executeWithRetry_from.simps [simp del]

definition executeWithRetry :: "env \<Rightarrow> instruction list \<Rightarrow> state \<Rightarrow> TxResult \<times> state" where
  \<comment> \<open>the loop starts at \<open>attempt = 1\<close>\<close>
  "executeWithRetry e ixs st = executeWithRetry_from e ixs 1 st"

definition orNull :: "string option \<Rightarrow> string option" where
  \<comment> \<open>\<open>txResult.signature || null\<close>: the empty string is falsy\<close>
  "orNull s = (case s of None \<Rightarrow> None | Some x \<Rightarrow> (if x = [] then None else Some x))"

definition orTransactionFailed :: "string option \<Rightarrow> string" where
  \<comment> \<open>\<open>txResult.error || 'Transaction failed'\<close>\<close>
  "orTransactionFailed s =
     (case s of None \<Rightarrow> ''Transaction failed''
              | Some x \<Rightarrow> (if x = [] then ''Transaction failed'' else x))"

definition commitSuccess :: "string option \<Rightarrow> AccountStatus \<Rightarrow> state \<Rightarrow> state" where
  \<comment> \<open>the store and log writes of one round of the loop after a confirmed transaction\<close>
  "commitSuccess sig acc st =
     logEntry (pubkey acc) Log_reclaimed (lamports acc) None sig
       (addReclaimHistory (pubkey acc) (lamports acc) Success None (orNull sig)
          (updateAccountStatus (pubkey acc) Reclaimed None
             (recordReclaim (lamports acc) st)))"

definition commitFailure :: "string option \<Rightarrow> AccountStatus \<Rightarrow> state \<Rightarrow> state" where
  \<comment> \<open>the store and log writes of one round of the loop after exhausted retries\<close>
  "commitFailure err acc st =
     logEntry (pubkey acc) Log_failed 0 (map_option Message err) None
       (addReclaimHistory (pubkey acc) 0 Failed (Some (orTransactionFailed err)) None st)"

definition dryRunEntry :: "AccountStatus \<Rightarrow> state \<Rightarrow> state" where
  \<comment> \<open>\<open>this.logEntry(acc.pubkey, 'reclaimed', acc.lamports, undefined, 'DRY_RUN')\<close>\<close>
  "dryRunEntry acc st = logEntry (pubkey acc) Log_reclaimed (lamports acc) None (Some ''DRY_RUN'') st"

definition processBatch ::
  "safety_revision \<Rightarrow> env \<Rightarrow> AccountStatus list \<Rightarrow> pubkey \<Rightarrow> bool \<Rightarrow> state
     \<Rightarrow> (thrown + BatchReclaimResult) \<times> state" where
  "processBatch sv e accs treasury dry st =
     (case loadOperatorKeypair e of
        Inl err \<Rightarrow> (Inl err, st)
      | Inr operator \<Rightarrow>
          (case buildInstructions sv e operator treasury accs st of
             ((fl, ixs, inTx), st1) \<Rightarrow>
               (if ixs = [] then
                  (Inr \<lparr>successful = [], failed = fl, totalLamportsReclaimed = 0\<rparr>, st1)
                else if dry then
                  (Inr \<lparr>successful = map (successRecord None) inTx, failed = fl,
                        totalLamportsReclaimed = sum_list (map lamports inTx)\<rparr>,
                   fold dryRunEntry inTx st1)
                else
                  (case executeWithRetry e ixs st1 of
                     (txResult, st2) \<Rightarrow>
                       (if tx_success txResult then
                          (Inr \<lparr>successful = map (successRecord (signature txResult)) inTx,
                                failed = fl,
                                totalLamportsReclaimed = sum_list (map lamports inTx)\<rparr>,
                           fold (commitSuccess (signature txResult)) inTx st2)
                        else
                          (Inr \<lparr>successful = [],
                                failed = fl @ map (\<lambda>acc. failedRecord (pubkey acc)
                                                     (map_option Message (tx_error txResult))) inTx,
                                totalLamportsReclaimed = 0\<rparr>,
                           fold (commitFailure (tx_error txResult)) inTx st2))))))"

function createBatches :: "'a list \<Rightarrow> nat \<Rightarrow> 'a list list" where
  \<comment> \<open>\<open>maxPerBatch = 0\<close> makes the source's loop run forever on a non-empty list;
      the engine calls it with \<open>MAX_INSTRUCTIONS\<close> only.\<close>
  "createBatches accs maxPerBatch =
     (if accs = [] \<or> maxPerBatch = 0 then []
      else take maxPerBatch accs # createBatches (drop maxPerBatch accs) maxPerBatch)"
  by pat_completeness auto
termination
  by (relation "measure (\<lambda>(accs, maxPerBatch). length accs)") auto

declare createBatches.simps [simp del]

definition mergeResult :: "BatchReclaimResult \<Rightarrow> BatchReclaimResult \<Rightarrow> BatchReclaimResult" where
  \<comment> \<open>the three lines after \<open>await this.processBatch(...)\<close>\<close>
  "mergeResult result batchResult =
     \<lparr>successful = successful result @ successful batchResult,
      failed = failed result @ failed batchResult,
      totalLamportsReclaimed = totalLamportsReclaimed result + totalLamportsReclaimed batchResult\<rparr>"

fun processBatches ::
  "safety_revision \<Rightarrow> env \<Rightarrow> pubkey \<Rightarrow> bool \<Rightarrow> AccountStatus list list
     \<Rightarrow> BatchReclaimResult \<Rightarrow> state \<Rightarrow> BatchReclaimResult \<times> state" where
  "processBatches sv e treasury dry [] result st = (result, st)"
| "processBatches sv e treasury dry (batch # rest) result st =
     (case processBatch sv e batch treasury dry st of
        (outcome, st') \<Rightarrow>
          (let result' =
                 (case outcome of
                    Inr batchResult \<Rightarrow> mergeResult result batchResult
                  | Inl err \<Rightarrow>
                      result\<lparr>failed := failed result @
                        map (\<lambda>account. failedRecord (pubkey account)
                                         (Some (Message (errMsgOf err)))) batch\<rparr>)
           in if getRemainingBudget e st' \<le> 0 then (result', st')
              else processBatches sv e treasury dry rest result' st'))"

definition reclaimAccounts ::
  "safety_revision \<Rightarrow> env \<Rightarrow> AccountStatus list \<Rightarrow> state
     \<Rightarrow> (thrown + BatchReclaimResult) \<times> state" where
  "reclaimAccounts sv e accs st =
     (if accs = [] then (Inr emptyResult, st)
      else if treasuryAddress e = [] then (Inl (Error ''Treasury address not configured''), st)
      else (case newPublicKey e (treasuryAddress e) of
              Some err \<Rightarrow> (Inl err, st)
            | None \<Rightarrow>
                (case processBatches sv e (treasuryAddress e) (dryRun e)
                        (createBatches accs MAX_INSTRUCTIONS) emptyResult st of
                   (result, st') \<Rightarrow> (Inr result, st'))))"

definition singleStatus :: "pubkey \<Rightarrow> AccountStatus" where
  \<comment> \<open>the object literal of \<open>reclaimSingle\<close>; it has no \<open>operatorCanClose\<close>,
      which reads as falsy\<close>
  "singleStatus pk =
     \<lparr>pubkey = pk, acct_exists = True, lamports = 0, owner = None, dataLength = 0,
      executable = False, isTokenAccount = False, isReclaimable = True, skipReason = None,
      closeAuthority = None, operatorCanClose = False\<rparr>"

definition reclaimSingle ::
  "safety_revision \<Rightarrow> env \<Rightarrow> pubkey \<Rightarrow> state \<Rightarrow> (thrown + ReclaimResult) \<times> state" where
  "reclaimSingle sv e pk st =
     (case reclaimAccounts sv e [singleStatus pk] st of
        (Inl err, st') \<Rightarrow> (Inl err, st')
      | (Inr result, st') \<Rightarrow>
          (Inr (case successful result of
                  r # rs \<Rightarrow> r
                | [] \<Rightarrow> (case failed result of
                           r # rs \<Rightarrow> r
                         | [] \<Rightarrow> failedRecord pk (Some No_result))),
           st'))"

section \<open>Example inputs\<close>

text \<open>
  A devnet-like configuration: the default limits (7 idle days, 10 SOL per run), no
  static whitelist, a loadable operator wallet, every string a valid key, every token
  account empty, every submission confirmed.
\<close>

definition ex_env :: env where
  "ex_env =
     \<lparr>dryRun = False, treasuryAddress = ''Treasury'', minIdleDays = 7,
      maxReclaimSolPerRun = 10, cfgWhitelist = {}, loadOperatorKeypair = Inr ''Operator'',
      newPublicKey = (\<lambda>s. None), getAccount = (\<lambda>pk. TokenFound 0),
      sendAndConfirm = (\<lambda>n ixs. Confirmed ''sig'')\<rparr>"

definition ex_row :: "pubkey \<Rightarrow> timestamp option \<Rightarrow> timestamp option \<Rightarrow> SponsoredAccount" where
  \<comment> \<open>a tracked, active row with the given \<open>last_checked\<close> and \<open>reclaimable_since\<close>\<close>
  "ex_row pk checked since =
     \<lparr>acc_id = Some 1, acc_pubkey = pk, program_owner = None, sponsor_signature = None,
      acc_lamports = 0, created_at = 0, last_checked = checked, acc_status = Active,
      reclaimable_since = since, close_authority = None, operator_can_close = True\<rparr>"

definition ex_state :: "(pubkey \<rightharpoonup> SponsoredAccount) \<Rightarrow> state" where
  \<comment> \<open>the start of a run over the given accounts table\<close>
  "ex_state rows =
     \<lparr>accounts = rows, seq = 1, history = [], whitelist = {}, totalReclaimedThisRun = 0,
      logEntries = [], submitted = [], sleeps = [], clock = 1000000000000\<rparr>"

definition ex_token_status :: "pubkey \<Rightarrow> int \<Rightarrow> bool \<Rightarrow> AccountStatus" where
  \<comment> \<open>the scanner's status of a token account whose close authority is the operator
      (\<open>can = True\<close>) or somebody else\<close>
  "ex_token_status pk l can =
     \<lparr>pubkey = pk, acct_exists = True, lamports = l, owner = Some TOKEN_PROGRAM_ID,
      dataLength = 165, executable = False, isTokenAccount = True, isReclaimable = can,
      skipReason = None, closeAuthority = Some (if can then ''Operator'' else ''Somebody''),
      operatorCanClose = can\<rparr>"




definition base58_alphabet :: string where
  "base58_alphabet = ''123456789ABCDEFGHJKLMNPQRSTUVWXYZabcdefghijkmnopqrstuvwxyz''"

definition ex_rent_key :: pubkey where
  \<comment> \<open>the rent sysvar\<close>
  "ex_rent_key = ''SysvarRent111111111111111111111111111111111''"

definition ex_clock_key :: pubkey where
  \<comment> \<open>the clock sysvar\<close>
  "ex_clock_key = ''SysvarC1ock11111111111111111111111111111111''"

definition ex_strict_env :: env where
  \<comment> \<open>the treasury is a key, and \<open>new PublicKey(s)\<close> is as strict as the library:
      it accepts the two sysvar keys; on a string with a character outside the base58
      alphabet it throws the decoder's \<open>Non-base58 character\<close>; on any other string it
      throws \<open>Invalid public key input\<close> (right unless the string is some third key)\<close>
  "ex_strict_env = ex_env\<lparr>treasuryAddress := ex_rent_key, newPublicKey :=
      (\<lambda>s. if s = ex_rent_key \<or> s = ex_clock_key then None
           else if set s \<subseteq> set base58_alphabet then Some (Error ''Invalid public key input'')
           else Some (Error ''Non-base58 character''))\<rparr>"



section \<open>Rounding\<close>











lemma floor_rat_numeral: "\<lfloor>(numeral a / numeral b :: rat)\<rfloor> = numeral a div numeral b"
  using floor_divide_of_int_eq [of "numeral a" "numeral b", where 'a = rat] by simp

lemma floor_rat_neg_numeral: "\<lfloor>(- (numeral a / numeral b) :: rat)\<rfloor> = - numeral a div numeral b"
  using floor_divide_of_int_eq [of "- numeral a" "numeral b", where 'a = rat] by simp

text \<open>The rules that evaluate the operations on numerals.\<close>

lemmas double_eval = num_add_def num_sub_def num_mul_def num_div_def nearest_double_def
  ilog2_def lg_up.simps lg_down.simps pow2_def round_half_even_def Let_def
  floor_rat_numeral floor_rat_neg_numeral

text \<open>
  Some values: \<open>0.1\<close>, \<open>0.2\<close> and \<open>0.3\<close> as doubles,
  \<open>0.1 + 0.2\<close>, which is the double after \<open>0.3\<close>, and \<open>0.3 * 1e9\<close>,
  which is 300000000.
\<close>

lemma nearest_double_examples:
  "nearest_double (1 / 10) = 3602879701896397 / 2 ^ 55"
  "nearest_double (2 / 10) = 3602879701896397 / 2 ^ 54"
  "nearest_double (3 / 10) = 5404319552844595 / 2 ^ 54"
  "nearest_double (nearest_double (1 / 10) + nearest_double (2 / 10)) = 5404319552844596 / 2 ^ 54"
  "nearest_double (nearest_double (3 / 10) * 1000000000) = 300000000"
  "nearest_double 10 = 10"
  by (simp_all add: double_eval)

section \<open>The safety gate\<close>

text \<open>
  The budget check and the remaining budget under the default cap of 10 SOL: at the
  start of a run, for the amounts of the examples, and after the 10.01835352 SOL of the
  eleven-account example.
\<close>

lemma checkReclaimLimit_ex:
  assumes "totalReclaimedThisRun st = 0" and "maxReclaimSolPerRun e = 10"
  shows "checkReclaimLimit e st 0 = allow"
    and "checkReclaimLimit e st 2039280 = allow"
    and "checkReclaimLimit e st 6000000000 = allow"
    and "checkReclaimLimit e st 10000000000 = allow"
    and "checkReclaimLimit e st 11000000000 = deny (Would_exceed_max_reclaim_limit 10)"
  unfolding checkReclaimLimit_def Let_def
  using assms by (simp_all add: allow_def deny_def double_eval)


lemma days_less_iff:
  "(daysBetween now t < of_int m) = (now - t < m * 86400000)"
proof -
  have "(of_int (now - t) / (86400000::rat) < of_int m)
        = ((of_int (now - t) :: rat) < of_int m * 86400000)"
    by (simp add: pos_divide_less_eq)
  also have "\<dots> = ((of_int (now - t) :: rat) < of_int (m * 86400000))"
    by simp
  also have "\<dots> = (now - t < m * 86400000)"
    by (simp only: of_int_less_iff)
  finally show ?thesis
    by (simp add: daysBetween_def)
qed

text \<open>
  The revision of unnamed/part_003 checks the authority before anything else: an
  account the operator cannot close is denied whatever the whitelist, the idle clock
  and the budget are.
\<close>

lemma checkAccount_003_authority_first:
  "\<not> operatorCanClose account \<Longrightarrow>
     checkAccount_003 e st account = deny Operator_is_not_the_close_authority"
  by (simp add: checkAccount_003_def)

text \<open>
  C1. Claimed: an account with \<open>operatorCanClose = false\<close> is never allowed by
  \<open>SafetyManager.checkAccount\<close>. The revision of unnamed/part_002 never reads
  \<open>operatorCanClose\<close>: a token account whose close authority is somebody else, not
  whitelisted, never scanned before, within the budget, is allowed. The revision of
  unnamed/part_003 denies the same account. The status that \<open>reclaimSingle\<close>
  fabricates, which has no \<open>operatorCanClose\<close> at all, is allowed as well.
\<close>

theorem checkAccount_allows_without_authority:
  "operatorCanClose (ex_token_status ''A'' 2039280 False) = False
   \<and> allowed (checkAccount ex_env (ex_state Map.empty) (ex_token_status ''A'' 2039280 False)) = True
   \<and> allowed (checkAccount_003 ex_env (ex_state Map.empty) (ex_token_status ''A'' 2039280 False)) = False
   \<and> operatorCanClose (singleStatus ''A'') = False
   \<and> allowed (checkAccount ex_env (ex_state Map.empty) (singleStatus ''A'')) = True"
  by (simp add: checkAccount_def checkAccount_003_def ex_token_status_def ex_env_def ex_state_def
      isWhitelisted_def isWhitelisted_db_def checkIdleDuration_def getAccountRow_def
      checkReclaimLimit_def allow_def deny_def singleStatus_def double_eval)

text \<open>
  The revision of unnamed/part_003 gates a tracked account on \<open>reclaimable_since\<close>
  alone, with an inclusive boundary: null is denied, and a set value is allowed exactly
  when at least \<open>minIdleDays\<close> whole days have passed since.
\<close>

lemma checkIdleDuration_003_tracked:
  "accounts st pk = Some row \<Longrightarrow>
     allowed (checkIdleDuration_003 e st pk) =
       (case reclaimable_since row of
          None \<Rightarrow> False
        | Some t \<Rightarrow> minIdleDays e * 86400000 \<le> clock st - t)"
  by (auto simp: checkIdleDuration_003_def getAccountRow_def allow_def deny_def days_less_iff
      split: option.splits)

text \<open>
  C2. Claimed: the idle check denies when \<open>reclaimableSince\<close> is null or younger than
  \<open>minIdleDays\<close>, allows at exactly \<open>minIdleDays\<close>, and never reads
  \<open>lastChecked\<close>. \<open>checkIdleDuration\<close> of unnamed/part_002 reads \<open>lastChecked\<close>
  and nothing else. With \<open>minIdleDays = 7\<close>: a row with both stamps null is allowed; a
  row reclaimable for exactly 7 days and scanned an hour ago is denied; a row reclaimable
  for 6 days 23 hours and scanned 7 days ago is allowed.
\<close>

theorem checkIdleDuration_reads_lastChecked:
  "allowed (checkIdleDuration ex_env (ex_state [''A'' \<mapsto> ex_row ''A'' None None]) ''A'') = True
   \<and> allowed (checkIdleDuration ex_env
        (ex_state [''A'' \<mapsto> ex_row ''A'' (Some (1000000000000 - 3600000))
                                       (Some (1000000000000 - 7 * 86400000))]) ''A'') = False
   \<and> allowed (checkIdleDuration ex_env
        (ex_state [''A'' \<mapsto> ex_row ''A'' (Some (1000000000000 - 7 * 86400000))
                                       (Some (1000000000000 - 7 * 86400000 + 3600000))]) ''A'') = True"
  by (simp add: checkIdleDuration_def ex_env_def ex_state_def ex_row_def getAccountRow_def
      daysBetween_def allow_def deny_def)

section \<open>The store\<close>





lemma find_snoc:
  "find P (xs @ [x]) =
     (case find P xs of None \<Rightarrow> (if P x then Some x else None) | Some y \<Rightarrow> Some y)"
  by (induction xs) auto

lemma addAccountsBatch_last_wins:
  "map_option (acc_id_update (\<lambda>_. None)) (accounts (addAccountsBatch as st) pk) =
     (case find (\<lambda>a. acc_pubkey a = pk) (rev as) of
        None \<Rightarrow> map_option (acc_id_update (\<lambda>_. None)) (accounts st pk)
      | Some a \<Rightarrow> Some (a\<lparr>acc_id := None\<rparr>))"
proof (induction as arbitrary: st)
  case Nil
  then show ?case by simp
next
  case (Cons a as)
  show ?case
    by (simp add: Cons.IH find_snoc addAccount_def split: option.splits)
qed

text \<open>
  C6, as claimed: an upsert preserves a non-null \<open>reclaimableSince\<close> of a row whose
  \<open>operatorCanClose\<close> is and stays true. It does not: the tracked row of \<open>A\<close>
  has \<open>reclaimable_since = 5\<close> and \<open>operator_can_close = 1\<close>; upserting a record of
  \<open>A\<close> with \<open>operatorCanClose = true\<close> and \<open>reclaimableSince = null\<close>, through
  \<open>addAccount\<close> or \<open>addAccountsBatch\<close>, leaves \<open>reclaimable_since\<close> null.
\<close>

theorem upsert_overwrites_reclaimable_since:
  "map_option reclaimable_since
      (accounts (ex_state [''A'' \<mapsto> ex_row ''A'' None (Some 5)]) ''A'') = Some (Some 5)
   \<and> map_option operator_can_close
      (accounts (ex_state [''A'' \<mapsto> ex_row ''A'' None (Some 5)]) ''A'') = Some True
   \<and> operator_can_close (ex_row ''A'' None None) = True
   \<and> map_option reclaimable_since
        (accounts (addAccount (ex_row ''A'' None None)
                     (ex_state [''A'' \<mapsto> ex_row ''A'' None (Some 5)])) ''A'') = Some None
   \<and> map_option reclaimable_since
        (accounts (addAccountsBatch [ex_row ''A'' None None]
                     (ex_state [''A'' \<mapsto> ex_row ''A'' None (Some 5)])) ''A'') = Some None"
  by (simp add: addAccount_def ex_state_def ex_row_def)

text \<open>
  C6, amended: an upsert is last-write-wins for every column, \<open>reclaimable_since\<close>
  included. \<open>addAccount\<close> replaces the row of the record's pubkey by the record (under
  a fresh id) and touches no other row; after \<open>addAccountsBatch\<close> the row of a pubkey
  is, up to its id, the last record of the batch with that pubkey, or the old row when the
  batch has none.
\<close>

theorem upsert_last_write_wins:
  "accounts (addAccount a st)
     = (accounts st)(acc_pubkey a \<mapsto> a\<lparr>acc_id := Some (Suc (seq st))\<rparr>)
   \<and> map_option reclaimable_since (accounts (addAccount a st) (acc_pubkey a))
       = Some (reclaimable_since a)
   \<and> map_option (acc_id_update (\<lambda>_. None)) (accounts (addAccountsBatch as st) pk) =
       (case find (\<lambda>a. acc_pubkey a = pk) (rev as) of
          None \<Rightarrow> map_option (acc_id_update (\<lambda>_. None)) (accounts st pk)
        | Some a \<Rightarrow> Some (a\<lparr>acc_id := None\<rparr>))"
  by (simp add: addAccountsBatch_last_wins) (simp add: addAccount_def)

section \<open>The scanner\<close>




section \<open>The reclaim engine\<close>



lemma denied_has_reason:
  "\<not> allowed (safety_checkAccount sv e st a) \<Longrightarrow> reason (safety_checkAccount sv e st a) \<noteq> None"
  by (auto simp: safety_checkAccount_def checkAccount_def checkAccount_003_def
      checkIdleDuration_def checkIdleDuration_003_def
      checkReclaimLimit_def allow_def deny_def Let_def split: safety_revision.splits option.splits if_splits)

lemma build_frame:
  "buildInstructions sv e operator treasury accs st = (res, st1) \<Longrightarrow>
   st1\<lparr>logEntries := []\<rparr> = st\<lparr>logEntries := []\<rparr>"
proof (induction accs arbitrary: st res st1)
  case Nil
  then show ?case by simp
next
  case (Cons a accs)
  show ?case
  proof (cases "allowed (safety_checkAccount sv e st a)")
    case True
    obtain r s where rs: "buildInstructions sv e operator treasury accs st = (r, s)"
      by (cases "buildInstructions sv e operator treasury accs st")
    from Cons.IH[OF rs] have "s\<lparr>logEntries := []\<rparr> = st\<lparr>logEntries := []\<rparr>" .
    moreover have "st1 = s"
      using Cons.prems True rs
      by (auto simp: Let_def split: prod.splits sum.splits option.splits)
    ultimately show ?thesis by simp
  next
    case False
    let ?st = "logEntry (pubkey a) Log_skipped 0 (reason (safety_checkAccount sv e st a)) None st"
    obtain r s where rs: "buildInstructions sv e operator treasury accs ?st = (r, s)"
      by (cases "buildInstructions sv e operator treasury accs ?st")
    from Cons.IH[OF rs] have "s\<lparr>logEntries := []\<rparr> = ?st\<lparr>logEntries := []\<rparr>" .
    moreover have "st1 = s"
      using Cons.prems False rs
      by (auto simp: Let_def split: prod.splits)
    ultimately show ?thesis by (simp add: logEntry_def)
  qed
qed

lemma frame_fields:
  "st1\<lparr>logEntries := []\<rparr> = st\<lparr>logEntries := []\<rparr> \<Longrightarrow>
   accounts st1 = accounts st \<and> seq st1 = seq st \<and> history st1 = history st
   \<and> whitelist st1 = whitelist st \<and> totalReclaimedThisRun st1 = totalReclaimedThisRun st
   \<and> submitted st1 = submitted st \<and> sleeps st1 = sleeps st \<and> clock st1 = clock st"
proof -
  assume h: "st1\<lparr>logEntries := []\<rparr> = st\<lparr>logEntries := []\<rparr>"
  show ?thesis
    using arg_cong[OF h, of accounts] arg_cong[OF h, of seq] arg_cong[OF h, of history]
      arg_cong[OF h, of whitelist] arg_cong[OF h, of totalReclaimedThisRun]
      arg_cong[OF h, of submitted] arg_cong[OF h, of sleeps] arg_cong[OF h, of clock]
    by simp
qed

lemma build_result:
  "\<exists>fl ixs inTx s. buildInstructions sv e operator treasury accs st = ((fl, ixs, inTx), s)"
proof -
  obtain r s where 1: "buildInstructions sv e operator treasury accs st = (r, s)"
    by (cases "buildInstructions sv e operator treasury accs st")
  obtain fl ixs inTx where 2: "r = (fl, ixs, inTx)"
    by (cases r)
  show ?thesis using 1 2 by simp
qed

lemma build_shape:
  "buildInstructions sv e operator treasury accs st = ((fl, ixs, inTx), st1) \<Longrightarrow>
   length ixs = length inTx
   \<and> mset (map rr_pubkey fl) + mset (map pubkey inTx) = mset (map pubkey accs)
   \<and> (\<forall>r \<in> set fl. \<not> success r \<and> lamportsReclaimed r = 0 \<and> error r \<noteq> None)
   \<and> set inTx \<subseteq> set accs"
proof (induction accs arbitrary: st fl ixs inTx st1)
  case Nil
  then show ?case by simp
next
  case (Cons a accs)
  show ?case
  proof (cases "allowed (safety_checkAccount sv e st a)")
    case True
    obtain fl' ixs' inTx' s where rs:
      "buildInstructions sv e operator treasury accs st = ((fl', ixs', inTx'), s)"
      using build_result by blast
    note ih = Cons.IH[OF rs]
    show ?thesis
      using Cons.prems True rs ih
      by (auto simp: Let_def failedRecord_def split: sum.splits option.splits)
  next
    case False
    let ?st = "logEntry (pubkey a) Log_skipped 0 (reason (safety_checkAccount sv e st a)) None st"
    obtain fl' ixs' inTx' s where rs:
      "buildInstructions sv e operator treasury accs ?st = ((fl', ixs', inTx'), s)"
      using build_result by blast
    note ih = Cons.IH[OF rs]
    show ?thesis
      using Cons.prems False rs ih denied_has_reason[of sv e st a]
      by (auto simp: Let_def failedRecord_def)
  qed
qed




lemma fold_dryRunEntry:
  "fold dryRunEntry inTx st =
     st\<lparr>logEntries := logEntries st @
        map (\<lambda>acc. \<lparr>log_pubkey = pubkey acc, log_status = Log_reclaimed,
                     log_lamports = lamports acc, log_reason = None,
                     log_txSignature = Some ''DRY_RUN'', log_timestamp = clock st\<rparr>) inTx\<rparr>"
  by (induction inTx arbitrary: st) (simp_all add: dryRunEntry_def logEntry_def)





lemma processBatch_live:
  assumes "loadOperatorKeypair e = Inr operator"
    and "buildInstructions sv e operator treasury accs st = ((fl, ixs, inTx), st1)"
    and "ixs \<noteq> []"
    and "executeWithRetry e ixs st1 = (txResult, st2)"
  shows "processBatch sv e accs treasury False st =
     (if tx_success txResult then
        (Inr \<lparr>successful = map (successRecord (signature txResult)) inTx, failed = fl,
              totalLamportsReclaimed = sum_list (map lamports inTx)\<rparr>,
         fold (commitSuccess (signature txResult)) inTx st2)
      else
        (Inr \<lparr>successful = [],
              failed = fl @ map (\<lambda>acc. failedRecord (pubkey acc)
                                   (map_option Message (tx_error txResult))) inTx,
              totalLamportsReclaimed = 0\<rparr>,
         fold (commitFailure (tx_error txResult)) inTx st2))"
  using assms by (simp add: processBatch_def)




lemma execute_first_confirmed:
  assumes "sendAndConfirm e (length (submitted st)) ixs = Confirmed sig"
  shows "executeWithRetry e ixs st =
           (\<lparr>tx_success = True, signature = Some sig, tx_error = None\<rparr>,
            st\<lparr>submitted := submitted st @ [ixs]\<rparr>)"
  unfolding executeWithRetry_def One_nat_def using assms
  by (subst executeWithRetry_from.simps) (simp add: MAX_RETRIES_def)

lemma processBatch_dry:
  "processBatch sv e accs treasury True st =
     (case loadOperatorKeypair e of
        Inl err \<Rightarrow> (Inl err, st)
      | Inr operator \<Rightarrow>
          (case buildInstructions sv e operator treasury accs st of
             ((fl, ixs, inTx), st1) \<Rightarrow>
               (Inr \<lparr>successful = map (successRecord None) inTx, failed = fl,
                     totalLamportsReclaimed = sum_list (map lamports inTx)\<rparr>,
                fold dryRunEntry inTx st1)))"
proof (cases "loadOperatorKeypair e")
  case (Inl err)
  then show ?thesis by (simp add: processBatch_def)
next
  case (Inr operator)
  obtain fl ixs inTx st1 where b:
    "buildInstructions sv e operator treasury accs st = ((fl, ixs, inTx), st1)"
    using build_result by blast
  have "ixs = [] \<Longrightarrow> inTx = []" using build_shape[OF b] by simp
  then show ?thesis using Inr b by (auto simp: processBatch_def)
qed

lemma processBatch_dry_frame:
  "(snd (processBatch sv e accs treasury True st))\<lparr>logEntries := []\<rparr> = st\<lparr>logEntries := []\<rparr>"
proof (cases "loadOperatorKeypair e")
  case (Inl err)
  then show ?thesis by (simp add: processBatch_dry)
next
  case (Inr operator)
  obtain fl ixs inTx st1 where b:
    "buildInstructions sv e operator treasury accs st = ((fl, ixs, inTx), st1)"
    using build_result by blast
  show ?thesis
    using Inr b build_frame[OF b] by (simp add: processBatch_dry fold_dryRunEntry)
qed

lemma processBatches_dry_frame:
  "(snd (processBatches sv e treasury True batches result st))\<lparr>logEntries := []\<rparr>
     = st\<lparr>logEntries := []\<rparr>"
proof (induction batches arbitrary: result st)
  case Nil
  then show ?case by simp
next
  case (Cons b batches)
  obtain outcome st' where p: "processBatch sv e b treasury True st = (outcome, st')"
    by (cases "processBatch sv e b treasury True st")
  have f: "st'\<lparr>logEntries := []\<rparr> = st\<lparr>logEntries := []\<rparr>"
    using processBatch_dry_frame[of sv e b treasury st] p by simp
  show ?case
    using p f Cons.IH by (simp add: Let_def)
qed

text \<open>
  C9. A dry-run \<open>processBatch\<close> leaves every part of the state but the logger's
  entries as it was: no transaction submitted, no delay slept, no history row, no account
  row, the run counter untouched; so does a whole dry run of \<open>reclaimAccounts\<close>. It
  runs the same build loop (safety check and close instruction per account) as a live run
  and reports each account with an instruction as successful with its lamports and no
  transaction signature, logged under the signature \<open>DRY_RUN\<close>; apart from the
  signature these are the records of the live run whose submission is confirmed at once.
\<close>

theorem dry_run_touches_only_the_log:
  "(snd (processBatch sv e accs treasury True st))\<lparr>logEntries := []\<rparr> = st\<lparr>logEntries := []\<rparr>
   \<and> (dryRun e \<longrightarrow>
        (snd (reclaimAccounts sv e accs st))\<lparr>logEntries := []\<rparr> = st\<lparr>logEntries := []\<rparr>)
   \<and> (case loadOperatorKeypair e of
         Inl err \<Rightarrow> fst (processBatch sv e accs treasury True st) = Inl err
       | Inr operator \<Rightarrow>
           (case buildInstructions sv e operator treasury accs st of
              ((fl, ixs, inTx), st1) \<Rightarrow>
                fst (processBatch sv e accs treasury True st) =
                  Inr \<lparr>successful = map (successRecord None) inTx, failed = fl,
                       totalLamportsReclaimed = sum_list (map lamports inTx)\<rparr>
                \<and> logEntries (snd (processBatch sv e accs treasury True st)) =
                    logEntries st1 @
                    map (\<lambda>acc. \<lparr>log_pubkey = pubkey acc, log_status = Log_reclaimed,
                                 log_lamports = lamports acc, log_reason = None,
                                 log_txSignature = Some ''DRY_RUN'',
                                 log_timestamp = clock st\<rparr>) inTx
                \<and> (\<forall>sig. ixs \<noteq> [] \<and> sendAndConfirm e (length (submitted st)) ixs = Confirmed sig
                      \<longrightarrow> fst (processBatch sv e accs treasury False st) =
                            Inr \<lparr>successful = map (successRecord (Some sig)) inTx, failed = fl,
                                 totalLamportsReclaimed = sum_list (map lamports inTx)\<rparr>)))"
proof -
  have A: "(snd (processBatch sv e accs treasury True st))\<lparr>logEntries := []\<rparr> = st\<lparr>logEntries := []\<rparr>"
    by (rule processBatch_dry_frame)
  have B: "dryRun e \<Longrightarrow>
        (snd (reclaimAccounts sv e accs st))\<lparr>logEntries := []\<rparr> = st\<lparr>logEntries := []\<rparr>"
  proof -
    assume d: "dryRun e"
    obtain result st' where p:
      "processBatches sv e (treasuryAddress e) True (createBatches accs MAX_INSTRUCTIONS) emptyResult st
         = (result, st')"
      by (cases "processBatches sv e (treasuryAddress e) True (createBatches accs MAX_INSTRUCTIONS) emptyResult st")
    have "st'\<lparr>logEntries := []\<rparr> = st\<lparr>logEntries := []\<rparr>"
      using processBatches_dry_frame[of sv e "treasuryAddress e" "createBatches accs MAX_INSTRUCTIONS" emptyResult st] p
      by simp
    then show ?thesis
      using d p by (simp add: reclaimAccounts_def split: option.splits)
  qed
  have C: "(case loadOperatorKeypair e of
         Inl err \<Rightarrow> fst (processBatch sv e accs treasury True st) = Inl err
       | Inr operator \<Rightarrow>
           (case buildInstructions sv e operator treasury accs st of
              ((fl, ixs, inTx), st1) \<Rightarrow>
                fst (processBatch sv e accs treasury True st) =
                  Inr \<lparr>successful = map (successRecord None) inTx, failed = fl,
                       totalLamportsReclaimed = sum_list (map lamports inTx)\<rparr>
                \<and> logEntries (snd (processBatch sv e accs treasury True st)) =
                    logEntries st1 @
                    map (\<lambda>acc. \<lparr>log_pubkey = pubkey acc, log_status = Log_reclaimed,
                                 log_lamports = lamports acc, log_reason = None,
                                 log_txSignature = Some ''DRY_RUN'',
                                 log_timestamp = clock st\<rparr>) inTx
                \<and> (\<forall>sig. ixs \<noteq> [] \<and> sendAndConfirm e (length (submitted st)) ixs = Confirmed sig
                      \<longrightarrow> fst (processBatch sv e accs treasury False st) =
                            Inr \<lparr>successful = map (successRecord (Some sig)) inTx, failed = fl,
                                 totalLamportsReclaimed = sum_list (map lamports inTx)\<rparr>)))"
  proof (cases "loadOperatorKeypair e")
    case (Inl err)
    then show ?thesis by (simp add: processBatch_dry)
  next
    case (Inr operator)
    obtain fl ixs inTx st1 where b:
      "buildInstructions sv e operator treasury accs st = ((fl, ixs, inTx), st1)"
      using build_result by blast
    note fr = frame_fields[OF build_frame[OF b]]
    have live: "\<And>sig. ixs \<noteq> [] \<Longrightarrow> sendAndConfirm e (length (submitted st)) ixs = Confirmed sig \<Longrightarrow>
        fst (processBatch sv e accs treasury False st) =
          Inr \<lparr>successful = map (successRecord (Some sig)) inTx, failed = fl,
               totalLamportsReclaimed = sum_list (map lamports inTx)\<rparr>"
    proof -
      fix sig assume n: "ixs \<noteq> []" and c: "sendAndConfirm e (length (submitted st)) ixs = Confirmed sig"
      have c1: "sendAndConfirm e (length (submitted st1)) ixs = Confirmed sig" using c fr by simp
      show "fst (processBatch sv e accs treasury False st) =
          Inr \<lparr>successful = map (successRecord (Some sig)) inTx, failed = fl,
               totalLamportsReclaimed = sum_list (map lamports inTx)\<rparr>"
        by (simp add: processBatch_live[OF Inr b n execute_first_confirmed[OF c1]])
    qed
    show ?thesis
      using Inr b fr live by (simp add: processBatch_dry fold_dryRunEntry)
  qed
  show ?thesis using A B C by blast
qed

theorem dry_run_touches_only_the_log_witness:
  "(snd (processBatch Part_003 (ex_env\<lparr>dryRun := True\<rparr>)
           [ex_token_status ''A'' 2039280 True, ex_token_status ''B'' 2039280 True]
           ''Treasury'' True (ex_state Map.empty)))\<lparr>logEntries := []\<rparr> = ex_state Map.empty
   \<and> (snd (reclaimAccounts Part_003 (ex_env\<lparr>dryRun := True\<rparr>)
           [ex_token_status ''A'' 2039280 True, ex_token_status ''B'' 2039280 True]
           (ex_state Map.empty)))\<lparr>logEntries := []\<rparr> = ex_state Map.empty
   \<and> fst (processBatch Part_003 (ex_env\<lparr>dryRun := True\<rparr>)
           [ex_token_status ''A'' 2039280 True, ex_token_status ''B'' 2039280 True]
           ''Treasury'' True (ex_state Map.empty))
       = Inr \<lparr>successful = [successRecord None (ex_token_status ''A'' 2039280 True),
                             successRecord None (ex_token_status ''B'' 2039280 True)],
              failed = [], totalLamportsReclaimed = 4078560\<rparr>
   \<and> map log_txSignature (logEntries (snd (processBatch Part_003 (ex_env\<lparr>dryRun := True\<rparr>)
           [ex_token_status ''A'' 2039280 True, ex_token_status ''B'' 2039280 True]
           ''Treasury'' True (ex_state Map.empty)))) = [Some ''DRY_RUN'', Some ''DRY_RUN'']
   \<and> fst (processBatch Part_003 (ex_env\<lparr>dryRun := True\<rparr>)
           [ex_token_status ''A'' 2039280 True, ex_token_status ''B'' 2039280 True]
           ''Treasury'' False (ex_state Map.empty))
       = Inr \<lparr>successful = [successRecord (Some ''sig'') (ex_token_status ''A'' 2039280 True),
                             successRecord (Some ''sig'') (ex_token_status ''B'' 2039280 True)],
              failed = [], totalLamportsReclaimed = 4078560\<rparr>"
proof -
  let ?e = "ex_env\<lparr>dryRun := True\<rparr>"
  let ?accs = "[ex_token_status ''A'' 2039280 True, ex_token_status ''B'' 2039280 True]"
  let ?ixs = "[CloseAccount ''A'' ''Treasury'' ''Operator'',
               CloseAccount ''B'' ''Treasury'' ''Operator'']"
  have chk: "\<And>pk. allowed (safety_checkAccount Part_003 ?e (ex_state Map.empty)
                                (ex_token_status pk 2039280 True))"
    by (simp add: safety_checkAccount_def checkAccount_003_def isWhitelisted_def
        isWhitelisted_db_def checkIdleDuration_003_def getAccountRow_def checkReclaimLimit_ex
        allow_def deny_def ex_state_def ex_token_status_def ex_env_def)
  have cr: "\<And>pk. createCloseInstruction ?e (ex_token_status pk 2039280 True) ''Operator'' ''Treasury''
                    = Inr (Some (CloseAccount pk ''Treasury'' ''Operator''))"
    by (simp add: createCloseInstruction_def ex_token_status_def ex_env_def)
  have k: "loadOperatorKeypair ?e = Inr ''Operator''" "dryRun ?e"
    by (simp_all add: ex_env_def)
  have b: "buildInstructions Part_003 ?e ''Operator'' ''Treasury'' ?accs (ex_state Map.empty)
             = (([], ?ixs, ?accs), ex_state Map.empty)"
    by (simp add: chk cr)
  have c: "\<And>n ixs. sendAndConfirm ex_env n ixs = Confirmed ''sig''"
    by (simp add: ex_env_def)
  have l: "lamports (ex_token_status ''A'' 2039280 True) = 2039280"
          "lamports (ex_token_status ''B'' 2039280 True) = 2039280"
    by (simp_all add: ex_token_status_def)
  have s: "(ex_state Map.empty)\<lparr>logEntries := []\<rparr> = ex_state Map.empty"
          "logEntries (ex_state Map.empty) = []"
    by (simp_all add: ex_state_def)
  show ?thesis
    using dry_run_touches_only_the_log[of Part_003 ?e ?accs "''Treasury''" "ex_state Map.empty"]
    by (simp add: k b c l s del: buildInstructions.simps)
qed

lemma createBatches_Nil: "createBatches [] n = []"
  by (subst createBatches.simps) simp

lemma createBatches_single: "createBatches [x] MAX_INSTRUCTIONS = [[x]]"
  by (subst createBatches.simps) (simp add: MAX_INSTRUCTIONS_def createBatches_Nil)

lemma singleStatus_fields:
  "pubkey (singleStatus pk) = pk" "isTokenAccount (singleStatus pk) = False"
  "owner (singleStatus pk) = None" "lamports (singleStatus pk) = 0"
  "operatorCanClose (singleStatus pk) = False"
  by (simp_all add: singleStatus_def)

lemma createCloseInstruction_single:
  "createCloseInstruction e (singleStatus pk) authority destination =
     (case newPublicKey e pk of Some err \<Rightarrow> Inl err | None \<Rightarrow> Inr None)"
  by (simp add: createCloseInstruction_def singleStatus_fields)

lemma reclaimSingle_result:
  assumes "treasuryAddress e \<noteq> []" and "newPublicKey e (treasuryAddress e) = None"
  shows "reclaimSingle sv e pk st =
     (case loadOperatorKeypair e of
        Inl err \<Rightarrow> (Inr (failedRecord pk (Some (Message (errMsgOf err)))), st)
      | Inr operator \<Rightarrow>
          (let safetyCheck = safety_checkAccount sv e st (singleStatus pk)
           in if \<not> allowed safetyCheck then
                (Inr (failedRecord pk (reason safetyCheck)),
                 logEntry pk Log_skipped 0 (reason safetyCheck) None st)
              else
                (case newPublicKey e pk of
                   Some err \<Rightarrow> (Inr (failedRecord pk (Some (Message (errMsgOf err)))), st)
                 | None \<Rightarrow> (Inr (failedRecord pk (Some Could_not_create_close_instruction)), st))))"
proof (cases "loadOperatorKeypair e")
  case (Inl err)
  then show ?thesis
    using assms
    by (simp add: reclaimSingle_def reclaimAccounts_def createBatches_single processBatch_def
        emptyResult_def singleStatus_fields Let_def)
next
  case (Inr operator)
  show ?thesis
  proof (cases "allowed (safety_checkAccount sv e st (singleStatus pk))")
    case False
    then show ?thesis
      using assms Inr
      by (simp add: reclaimSingle_def reclaimAccounts_def createBatches_single processBatch_def
          emptyResult_def mergeResult_def singleStatus_fields Let_def)
  next
    case True
    then show ?thesis
      using assms Inr
      by (simp add: reclaimSingle_def reclaimAccounts_def createBatches_single processBatch_def
          emptyResult_def mergeResult_def singleStatus_fields createCloseInstruction_single
          Let_def split: option.splits)
  qed
qed

text \<open>
  C10, as claimed: \<open>reclaimSingle\<close> always returns a failure result, which is
  \<open>Could not create close instruction\<close> or a safety denial. With no treasury address
  configured it returns nothing: \<open>reclaimAccounts\<close> throws \<open>Treasury address not
  configured\<close>, under either revision of the safety gate; with a treasury address that
  is no key it throws the \<open>PublicKey\<close> constructor's error. With a valid
  configuration and a pubkey that is no key, the gate of unnamed/part_002 allows the
  fabricated status and the record's error is the constructor's message,
  \<open>Non-base58 character\<close> for the string \<open>not a key\<close>.
\<close>

theorem reclaimSingle_throws_or_other_error:
  "reclaimSingle Part_002 (ex_strict_env\<lparr>treasuryAddress := []\<rparr>) ex_clock_key (ex_state Map.empty)
     = (Inl (Error ''Treasury address not configured''), ex_state Map.empty)
   \<and> reclaimSingle Part_003 (ex_strict_env\<lparr>treasuryAddress := []\<rparr>) ex_clock_key (ex_state Map.empty)
     = (Inl (Error ''Treasury address not configured''), ex_state Map.empty)
   \<and> reclaimSingle Part_003 (ex_strict_env\<lparr>treasuryAddress := ''not a key''\<rparr>) ex_clock_key
        (ex_state Map.empty)
     = (Inl (Error ''Non-base58 character''), ex_state Map.empty)
   \<and> allowed (safety_checkAccount Part_002 ex_strict_env (ex_state Map.empty)
                (singleStatus ''not a key''))
   \<and> fst (reclaimSingle Part_002 ex_strict_env ''not a key'' (ex_state Map.empty))
     = Inr (failedRecord ''not a key'' (Some (Message ''Non-base58 character'')))"
proof -
  have a: "allowed (safety_checkAccount Part_002 ex_strict_env (ex_state Map.empty)
                (singleStatus ''not a key''))"
    by (simp add: safety_checkAccount_def checkAccount_def isWhitelisted_def isWhitelisted_db_def
        checkIdleDuration_def getAccountRow_def checkReclaimLimit_ex allow_def deny_def
        ex_state_def ex_strict_env_def ex_env_def singleStatus_def)
  have n: "newPublicKey ex_strict_env ''not a key'' = Some (Error ''Non-base58 character'')"
    by (simp add: ex_strict_env_def ex_env_def ex_rent_key_def ex_clock_key_def base58_alphabet_def)
  have t: "treasuryAddress ex_strict_env \<noteq> []"
          "newPublicKey ex_strict_env (treasuryAddress ex_strict_env) = None"
          "loadOperatorKeypair ex_strict_env = Inr ''Operator''"
    by (simp_all add: ex_strict_env_def ex_env_def ex_rent_key_def)
  have u: "newPublicKey (ex_strict_env\<lparr>treasuryAddress := ''not a key''\<rparr>) ''not a key''
             = Some (Error ''Non-base58 character'')"
    using n by simp
  show ?thesis
    using a reclaimSingle_result[OF t(1,2), of Part_002 "''not a key''" "ex_state Map.empty"]
    by (simp add: t n u errMsgOf_def reclaimSingle_def reclaimAccounts_def)
qed

text \<open>
  C10, amended: \<open>reclaimSingle\<close> changes nothing in the state but the logger's
  entries: no transaction is submitted, no history row written, no account row changed,
  the run counter untouched. With no treasury address configured it throws
  \<open>Treasury address not configured\<close>; with a treasury address that is no valid key it
  throws the error of the \<open>PublicKey\<close> constructor. When the treasury address is
  configured and is a valid key, it returns a failure record for the pubkey (not
  successful, nothing reclaimed, no signature, an error set). The error is the wallet's
  message when the operator wallet cannot be loaded; else the safety gate's reason when
  the gate denies the fabricated status; else the \<open>PublicKey\<close> constructor's message
  when the pubkey is no valid key; else \<open>Could not create close instruction\<close>.
\<close>

theorem reclaimSingle_never_reclaims:
  "(snd (reclaimSingle sv e pk st))\<lparr>logEntries := []\<rparr> = st\<lparr>logEntries := []\<rparr>
   \<and> (treasuryAddress e = [] \<longrightarrow>
        fst (reclaimSingle sv e pk st) = Inl (Error ''Treasury address not configured''))
   \<and> (\<forall>err. treasuryAddress e \<noteq> [] \<and> newPublicKey e (treasuryAddress e) = Some err \<longrightarrow>
        fst (reclaimSingle sv e pk st) = Inl err)
   \<and> (treasuryAddress e \<noteq> [] \<and> newPublicKey e (treasuryAddress e) = None \<longrightarrow>
        reclaimSingle sv e pk st =
          (case loadOperatorKeypair e of
             Inl err \<Rightarrow> (Inr (failedRecord pk (Some (Message (errMsgOf err)))), st)
           | Inr operator \<Rightarrow>
               (let safetyCheck = safety_checkAccount sv e st (singleStatus pk)
                in if \<not> allowed safetyCheck then
                     (Inr (failedRecord pk (reason safetyCheck)),
                      logEntry pk Log_skipped 0 (reason safetyCheck) None st)
                   else
                     (case newPublicKey e pk of
                        Some err \<Rightarrow> (Inr (failedRecord pk (Some (Message (errMsgOf err)))), st)
                      | None \<Rightarrow>
                          (Inr (failedRecord pk (Some Could_not_create_close_instruction)), st))))
        \<and> (case fst (reclaimSingle sv e pk st) of
              Inl err \<Rightarrow> False
            | Inr r \<Rightarrow> rr_pubkey r = pk \<and> \<not> success r \<and> lamportsReclaimed r = 0
                       \<and> txSignature r = None \<and> error r \<noteq> None))"
proof (cases "treasuryAddress e \<noteq> [] \<and> newPublicKey e (treasuryAddress e) = None")
  case True
  then have t: "treasuryAddress e \<noteq> []" "newPublicKey e (treasuryAddress e) = None"
    by simp_all
  note main = reclaimSingle_result[OF t, of sv pk st]
  have rsn: "\<not> allowed (safety_checkAccount sv e st (singleStatus pk)) \<Longrightarrow>
             reason (safety_checkAccount sv e st (singleStatus pk)) \<noteq> None"
    by (rule denied_has_reason)
  have "(snd (reclaimSingle sv e pk st))\<lparr>logEntries := []\<rparr> = st\<lparr>logEntries := []\<rparr>
        \<and> (case fst (reclaimSingle sv e pk st) of
              Inl err \<Rightarrow> False
            | Inr r \<Rightarrow> rr_pubkey r = pk \<and> \<not> success r \<and> lamportsReclaimed r = 0
                       \<and> txSignature r = None \<and> error r \<noteq> None)"
    unfolding main using rsn
    by (auto simp: Let_def failedRecord_def logEntry_def split: sum.splits option.splits)
  then show ?thesis
    using t main by simp
next
  case False
  then have "reclaimSingle sv e pk st =
      (if treasuryAddress e = [] then (Inl (Error ''Treasury address not configured''), st)
       else (Inl (the (newPublicKey e (treasuryAddress e))), st))"
    by (auto simp: reclaimSingle_def reclaimAccounts_def)
  then show ?thesis
    using False by auto
qed

theorem reclaimSingle_never_reclaims_witness:
  "reclaimSingle Part_002 ex_strict_env ex_clock_key (ex_state Map.empty)
     = (Inr (failedRecord ex_clock_key (Some Could_not_create_close_instruction)),
        ex_state Map.empty)
   \<and> fst (reclaimSingle Part_003 ex_strict_env ex_clock_key (ex_state Map.empty))
     = Inr (failedRecord ex_clock_key (Some Operator_is_not_the_close_authority))
   \<and> fst (reclaimSingle Part_003 (ex_strict_env\<lparr>treasuryAddress := []\<rparr>) ex_clock_key
            (ex_state Map.empty))
     = Inl (Error ''Treasury address not configured'')
   \<and> fst (reclaimSingle Part_003 (ex_strict_env\<lparr>treasuryAddress := ''not a key''\<rparr>) ex_clock_key
            (ex_state Map.empty))
     = Inl (Error ''Non-base58 character'')"
proof -
  have a: "allowed (safety_checkAccount Part_002 ex_strict_env (ex_state Map.empty)
                      (singleStatus ex_clock_key))"
    by (simp add: safety_checkAccount_def checkAccount_def isWhitelisted_def isWhitelisted_db_def
        checkIdleDuration_def getAccountRow_def checkReclaimLimit_ex allow_def deny_def
        ex_state_def ex_strict_env_def ex_env_def singleStatus_def)
  have b: "safety_checkAccount Part_003 ex_strict_env (ex_state Map.empty) (singleStatus ex_clock_key)
             = deny Operator_is_not_the_close_authority"
    by (simp add: safety_checkAccount_def checkAccount_003_def singleStatus_def)
  have t: "treasuryAddress ex_strict_env \<noteq> []"
          "newPublicKey ex_strict_env (treasuryAddress ex_strict_env) = None"
          "loadOperatorKeypair ex_strict_env = Inr ''Operator''"
          "newPublicKey ex_strict_env ex_clock_key = None"
    by (simp_all add: ex_strict_env_def ex_env_def ex_rent_key_def)
  have n: "newPublicKey ex_strict_env ''not a key'' = Some (Error ''Non-base58 character'')"
    by (simp add: ex_strict_env_def ex_env_def ex_rent_key_def ex_clock_key_def base58_alphabet_def)
  have u: "newPublicKey (ex_strict_env\<lparr>treasuryAddress := ''not a key''\<rparr>) ''not a key''
             = Some (Error ''Non-base58 character'')"
    using n by simp
  have c1: "reclaimSingle Part_002 ex_strict_env ex_clock_key (ex_state Map.empty)
     = (Inr (failedRecord ex_clock_key (Some Could_not_create_close_instruction)),
        ex_state Map.empty)"
    using reclaimSingle_never_reclaims[of Part_002 ex_strict_env ex_clock_key "ex_state Map.empty"]
    by (simp add: a t)
  have c2: "fst (reclaimSingle Part_003 ex_strict_env ex_clock_key (ex_state Map.empty))
     = Inr (failedRecord ex_clock_key (Some Operator_is_not_the_close_authority))"
    using reclaimSingle_never_reclaims[of Part_003 ex_strict_env ex_clock_key "ex_state Map.empty"]
    by (simp add: b t deny_def)
  have c3: "fst (reclaimSingle Part_003 (ex_strict_env\<lparr>treasuryAddress := []\<rparr>) ex_clock_key
            (ex_state Map.empty))
     = Inl (Error ''Treasury address not configured'')"
    using reclaimSingle_never_reclaims[of Part_003 "ex_strict_env\<lparr>treasuryAddress := []\<rparr>"
            ex_clock_key "ex_state Map.empty"]
    by simp
  have c4: "fst (reclaimSingle Part_003 (ex_strict_env\<lparr>treasuryAddress := ''not a key''\<rparr>) ex_clock_key
            (ex_state Map.empty))
     = Inl (Error ''Non-base58 character'')"
    using reclaimSingle_never_reclaims[of Part_003 "ex_strict_env\<lparr>treasuryAddress := ''not a key''\<rparr>"
            ex_clock_key "ex_state Map.empty"] u
    by simp
  show ?thesis
    using c1 c2 c3 c4 by simp
qed


























end
